theory Spec2Isabelle
  imports Complex_Main
begin

section \<open>Network registry (web3Service.ts, networks.ts, types.ts)\<close>

text \<open>
  The \<open>Network\<close> interface of types.ts. \<open>pyusdAddress\<close> is \<open>string | null\<close>;
  the chain id is a non-negative integer.
\<close>

record Network =
  chainId :: int
  name :: string
  currency :: string
  rpcUrl :: string
  blockExplorer :: string
  pyusdAddress :: "string option"
  isTestnet :: bool
  supported :: bool

text \<open>\<open>NETWORKS.sepolia\<close>, the entry every builder of qrCodeService.ts reads.\<close>

definition sepolia :: Network where
  "sepolia = \<lparr> chainId = 11155111, name = ''Sepolia Testnet'', currency = ''ETH'',
     rpcUrl = ''https://sepolia.infura.io/v3/'',
     blockExplorer = ''https://sepolia.etherscan.io'',
     pyusdAddress = Some ''0xCaC524BcA292aaade2DF8A05cC58F0a65B1B3bB9'',
     isTestnet = True, supported = True \<rparr>"

definition ethereum :: Network where
  "ethereum = \<lparr> chainId = 1, name = ''Ethereum Mainnet'', currency = ''ETH'',
     rpcUrl = ''https://mainnet.infura.io/v3/'',
     blockExplorer = ''https://etherscan.io'',
     pyusdAddress = Some ''0x6c3ea9036406852006290770BEdFcAbA0e23A0e8'',
     isTestnet = False, supported = False \<rparr>"

definition polygon :: Network where
  "polygon = \<lparr> chainId = 137, name = ''Polygon Mainnet'', currency = ''MATIC'',
     rpcUrl = ''https://polygon-rpc.com/'',
     blockExplorer = ''https://polygonscan.com'',
     pyusdAddress = None, isTestnet = False, supported = False \<rparr>"

text \<open>
  \<open>Object.values(NETWORKS)\<close>, in declaration order. networks.ts declares three
  networks; web3Service.ts, which qrCodeService.ts imports, declares the first two.
\<close>

definition NETWORKS :: "Network list" where
  "NETWORKS = [sepolia, ethereum, polygon]"

definition web3_NETWORKS :: "Network list" where
  "web3_NETWORKS = [sepolia, ethereum]"

definition getNetworkByChainId :: "int \<Rightarrow> Network option" where
  "getNetworkByChainId c = find (\<lambda>n. chainId n = c) NETWORKS"

definition getDefaultNetwork :: Network where
  "getDefaultNetwork = sepolia"



section \<open>JavaScript numbers (IEEE 754 binary64)\<close>

text \<open>
  The amount conversions of the source are written with \<open>number\<close>: \<open>parseFloat\<close>,
  \<open>*\<close>, \<open>Math.floor\<close>, \<open>parseInt\<close> and \<open>toString\<close>. A finite number is a dyadic
  rational: \<open>Fin m e\<close> stands for \<open>m * 2 ^ e\<close>, kept in lowest terms (\<open>m\<close> odd, or
  \<open>Fin 0 0\<close> for zero), so that equal numbers are equal terms. The sign of zero is
  not kept: none of the functions below can tell \<open>-0\<close> from \<open>0\<close>. All arithmetic is on
  \<open>int\<close>, exact, and rounded once to the nearest binary64 value, ties to even.
\<close>

datatype jsnum = NaN | PosInf | NegInf | Fin int int

text \<open>Number of binary and of decimal digits of a positive integer.\<close>

function bitlen :: "int \<Rightarrow> nat" where
  "bitlen n = (if n \<le> 0 then 0 else Suc (bitlen (n div 2)))"
  by pat_completeness auto
termination
  by (relation "measure nat") auto

function declen :: "int \<Rightarrow> nat" where
  "declen n = (if n \<le> 0 then 0 else Suc (declen (n div 10)))"
  by pat_completeness auto
termination
  by (relation "measure nat") auto

declare bitlen.simps [simp del]
declare declen.simps [simp del]

text \<open>
  The fraction \<open>n / d\<close> multiplied by \<open>b ^ k\<close>, again as a fraction; \<open>k\<close> may be
  negative.
\<close>

definition scale :: "int \<Rightarrow> int \<Rightarrow> int \<Rightarrow> int \<Rightarrow> int \<times> int" where
  "scale b n d k = (if 0 \<le> k then (n * b ^ nat k, d) else (n, d * b ^ nat (- k)))"

text \<open>\<open>b ^ k \<le> n / d\<close>, and from it \<open>\<lfloor>log\<^sub>2 (n / d)\<rfloor>\<close> and \<open>\<lfloor>log\<^sub>1\<^sub>0 (n / d)\<rfloor>\<close> for \<open>n, d > 0\<close>.\<close>

definition ratio_ge_pow :: "int \<Rightarrow> int \<Rightarrow> int \<Rightarrow> int \<Rightarrow> bool" where
  "ratio_ge_pow b n d k = (let (n', d') = scale b n d (- k) in d' \<le> n')"

definition ilog2 :: "int \<Rightarrow> int \<Rightarrow> int" where
  "ilog2 n d =
     (let k = int (bitlen n) - int (bitlen d)
      in if ratio_ge_pow 2 n d k then k else k - 1)"

definition ilog10 :: "int \<Rightarrow> int \<Rightarrow> int" where
  "ilog10 n d =
     (let k = int (declen n) - int (declen d)
      in if ratio_ge_pow 10 n d k then k else k - 1)"

text \<open>The integer nearest to \<open>n / d\<close>, ties to the even one.\<close>

definition round_half_even :: "int \<Rightarrow> int \<Rightarrow> int" where
  "round_half_even n d =
     (let f = n div d; r = n mod d
      in if 2 * r < d then f else if d < 2 * r then f + 1
         else if even f then f else f + 1)"

text \<open>\<open>m * 2 ^ e\<close> in lowest terms.\<close>

function canonical :: "int \<Rightarrow> int \<Rightarrow> jsnum" where
  "canonical m e =
     (if m = 0 then Fin 0 0
      else if even m then canonical (m div 2) (e + 1)
      else Fin m e)"
  by pat_completeness auto
termination
  by (relation "measure (\<lambda>(m, e). nat \<bar>m\<bar>)") (auto elim!: evenE)

declare canonical.simps [simp del]

text \<open>
  Rounding the exact magnitude \<open>n / d\<close> (with its sign) to binary64. The quantum is
  \<open>2 ^ q\<close>: 53 significant bits, and no exponent below that of the subnormal numbers.
  A result of \<open>2 ^ 1024\<close> or more is an infinity.
\<close>

definition round_binary64 :: "bool \<Rightarrow> int \<Rightarrow> int \<Rightarrow> jsnum" where
  "round_binary64 neg n d =
     (if n = 0 then Fin 0 0
      else
        let q = max (ilog2 n d) (- 1022) - 52;
            (n', d') = scale 2 n d (- q);
            m = round_half_even n' d'
        in if 1024 < q + int (bitlen m) then (if neg then NegInf else PosInf)
           else canonical (if neg then - m else m) q)"

text \<open>The number nearest to \<open>m * 2 ^ e\<close>, and to \<open>digits * 10 ^ e\<close>.\<close>

definition fl_dyadic :: "int \<Rightarrow> int \<Rightarrow> jsnum" where
  "fl_dyadic m e = (let (n, d) = scale 2 \<bar>m\<bar> 1 e in round_binary64 (m < 0) n d)"

definition fl_decimal :: "bool \<Rightarrow> int \<Rightarrow> int \<Rightarrow> jsnum" where
  "fl_decimal neg digits e = (let (n, d) = scale 10 digits 1 e in round_binary64 neg n d)"

text \<open>The number an integer literal of the source denotes, such as \<open>1e6\<close>.\<close>

definition num :: "int \<Rightarrow> jsnum" where
  "num n = fl_dyadic n 0"

text \<open>The operator \<open>*\<close>.\<close>

fun jsmul :: "jsnum \<Rightarrow> jsnum \<Rightarrow> jsnum" where
  "jsmul NaN _ = NaN"
| "jsmul _ NaN = NaN"
| "jsmul (Fin a ea) (Fin b eb) = fl_dyadic (a * b) (ea + eb)"
| "jsmul (Fin a ea) PosInf = (if a = 0 then NaN else if 0 < a then PosInf else NegInf)"
| "jsmul (Fin a ea) NegInf = (if a = 0 then NaN else if 0 < a then NegInf else PosInf)"
| "jsmul PosInf (Fin b eb) = (if b = 0 then NaN else if 0 < b then PosInf else NegInf)"
| "jsmul NegInf (Fin b eb) = (if b = 0 then NaN else if 0 < b then NegInf else PosInf)"
| "jsmul PosInf PosInf = PosInf"
| "jsmul PosInf NegInf = NegInf"
| "jsmul NegInf PosInf = NegInf"
| "jsmul NegInf NegInf = PosInf"

text \<open>\<open>Math.floor\<close>, \<open>isNaN\<close> and the comparison \<open>x <= 0\<close>.\<close>

definition floor_dyadic :: "int \<Rightarrow> int \<Rightarrow> int" where
  "floor_dyadic m e = (if 0 \<le> e then m * 2 ^ nat e else m div 2 ^ nat (- e))"

fun mathFloor :: "jsnum \<Rightarrow> jsnum" where
  "mathFloor (Fin m e) = canonical (floor_dyadic m e) 0"
| "mathFloor v = v"

fun isNaN :: "jsnum \<Rightarrow> bool" where
  "isNaN NaN = True"
| "isNaN _ = False"

fun le_zero :: "jsnum \<Rightarrow> bool" where
  "le_zero NaN = False"
| "le_zero PosInf = False"
| "le_zero NegInf = True"
| "le_zero (Fin m e) = (m \<le> 0)"


section \<open>Strings and conversions between strings and numbers\<close>

text \<open>
  A string is a list of characters; the strings of the source that matter here
  (addresses, amounts, URIs) are ASCII, where a character, a byte and a UTF-16 code
  unit are the same thing.
\<close>

definition digit_char :: "int \<Rightarrow> char" where
  "digit_char d = ''0123456789abcdef'' ! nat d"

function dec_digits :: "int \<Rightarrow> string" where
  "dec_digits n = (if n < 10 then [digit_char n] else dec_digits (n div 10) @ [digit_char (n mod 10)])"
  by pat_completeness auto
termination
  by (relation "measure nat") auto

function hex_digits :: "int \<Rightarrow> string" where
  "hex_digits n = (if n < 16 then [digit_char n] else hex_digits (n div 16) @ [digit_char (n mod 16)])"
  by pat_completeness auto
termination
  by (relation "measure nat") auto

declare dec_digits.simps [simp del]
declare hex_digits.simps [simp del]

fun index_of :: "'a \<Rightarrow> 'a list \<Rightarrow> int option" where
  "index_of c [] = None"
| "index_of c (x # xs) = (if c = x then Some 0 else map_option (\<lambda>i. i + 1) (index_of c xs))"

definition dec_value :: "char \<Rightarrow> int option" where
  "dec_value c = index_of c ''0123456789''"

definition hex_value :: "char \<Rightarrow> int option" where
  "hex_value c =
     (case index_of c ''0123456789abcdef'' of
        Some d \<Rightarrow> Some d
      | None \<Rightarrow> map_option (\<lambda>d. d + 10) (index_of c ''ABCDEF''))"

definition isDigit :: "char \<Rightarrow> bool" where
  "isDigit c = (dec_value c \<noteq> None)"

definition isHexDigit :: "char \<Rightarrow> bool" where
  "isHexDigit c = (hex_value c \<noteq> None)"

definition digits_value :: "int \<Rightarrow> (char \<Rightarrow> int option) \<Rightarrow> string \<Rightarrow> int" where
  "digits_value b val ds =
     foldl (\<lambda>acc c. b * acc + (case val c of Some d \<Rightarrow> d | None \<Rightarrow> 0)) 0 ds"

text \<open>The ASCII white space \<open>parseFloat\<close> and \<open>parseInt\<close> skip at the start.\<close>

definition isWhiteSpace :: "char \<Rightarrow> bool" where
  "isWhiteSpace c = (c \<in> set [CHR 0x09, CHR 0x0A, CHR 0x0B, CHR 0x0C, CHR 0x0D, CHR '' ''])"

definition split_sign :: "string \<Rightarrow> bool \<times> string" where
  "split_sign s =
     (case s of
        [] \<Rightarrow> (False, [])
      | c # r \<Rightarrow> if c = CHR ''-'' then (True, r) else if c = CHR ''+'' then (False, r) else (False, s))"

text \<open>
  \<open>parseFloat\<close>: the longest prefix of the trimmed string that is a decimal literal
  (\<open>Infinity\<close>, or digits with an optional fraction and exponent, with an optional sign),
  rounded to a number; \<open>NaN\<close> when there is none.
\<close>

definition exponentPart :: "string \<Rightarrow> int" where
  "exponentPart s =
     (case s of
        [] \<Rightarrow> 0
      | c # r \<Rightarrow>
          if c = CHR ''e'' \<or> c = CHR ''E''
          then (let (neg, r') = split_sign r; ds = takeWhile isDigit r'
                in if ds = [] then 0
                   else if neg then - digits_value 10 dec_value ds
                   else digits_value 10 dec_value ds)
          else 0)"

definition parseFloat :: "string \<Rightarrow> jsnum" where
  "parseFloat inputString =
     (let (neg, s) = split_sign (dropWhile isWhiteSpace inputString)
      in if take 8 s = ''Infinity'' then (if neg then NegInf else PosInf)
         else
           let ip = takeWhile isDigit s;
               r1 = dropWhile isDigit s;
               hasDot = (take 1 r1 = ''.'');
               fp = (if hasDot then takeWhile isDigit (drop 1 r1) else []);
               r2 = (if hasDot then dropWhile isDigit (drop 1 r1) else r1)
           in if ip = [] \<and> fp = [] then NaN
              else fl_decimal neg (digits_value 10 dec_value (ip @ fp))
                     (exponentPart r2 - int (length fp)))"

text \<open>
  \<open>parseInt\<close> without a radix: radix 16 after \<open>0x\<close>, radix 10 otherwise; the longest
  prefix of digits, rounded to a number; \<open>NaN\<close> when there is none.
\<close>

definition parseInt :: "string \<Rightarrow> jsnum" where
  "parseInt inputString =
     (let (neg, s) = split_sign (dropWhile isWhiteSpace inputString);
          hex = (take 2 s = ''0x'' \<or> take 2 s = ''0X'');
          z = (if hex then takeWhile isHexDigit (drop 2 s) else takeWhile isDigit s)
      in if z = [] then NaN
         else round_binary64 neg
                (if hex then digits_value 16 hex_value z else digits_value 10 dec_value z) 1)"

text \<open>
  \<open>Number.prototype.toString()\<close>. The digits are the shortest decimal \<open>s\<close> (of \<open>k\<close>
  digits, \<open>k\<close> counted up from 1) with \<open>s * 10 ^ (p - k)\<close> rounding back to the number
  \<open>x = n / d\<close>, and the one nearest to \<open>x\<close> when two qualify; \<open>formatDigits\<close> places
  the decimal point or the exponent as ECMAScript prescribes.
\<close>

fun shortest :: "jsnum \<Rightarrow> int \<Rightarrow> int \<Rightarrow> int \<Rightarrow> nat \<Rightarrow> nat \<Rightarrow> int \<times> int" where
  "shortest x n d p k 0 =
     (let (n', d') = scale 10 n d (int k - p) in (round_half_even n' d', p))"
| "shortest x n d p k (Suc fuel) =
     (let (n', d') = scale 10 n d (int k - p);
          lo = n' div d';
          hi = lo + 1;
          okLo = (fl_decimal False lo (p - int k) = x);
          okHi = (fl_decimal False hi (p - int k) = x);
          r = n' mod d';
          pick = (if okLo \<and> okHi
                  then (if 2 * r < d' then lo else if d' < 2 * r then hi
                        else if even lo then lo else hi)
                  else if okLo then lo else hi)
      in if okLo \<or> okHi
         then (if pick = 10 ^ k then (10 ^ (k - 1), p + 1) else (pick, p))
         else shortest x n d p (Suc k) fuel)"

definition formatDigits :: "string \<Rightarrow> int \<Rightarrow> string" where
  "formatDigits ds n =
     (let k = int (length ds)
      in if k \<le> n \<and> n \<le> 21 then ds @ replicate (nat (n - k)) (CHR ''0'')
         else if 0 < n \<and> n \<le> 21 then take (nat n) ds @ ''.'' @ drop (nat n) ds
         else if - 6 < n \<and> n \<le> 0 then ''0.'' @ replicate (nat (- n)) (CHR ''0'') @ ds
         else
           let e = n - 1;
               es = (if e < 0 then ''-'' else ''+'') @ dec_digits \<bar>e\<bar>
           in if k = 1 then ds @ ''e'' @ es
              else take 1 ds @ ''.'' @ drop 1 ds @ ''e'' @ es)"

definition positiveToString :: "int \<Rightarrow> int \<Rightarrow> string" where
  "positiveToString m e =
     (let (n, d) = scale 2 m 1 e;
          (s, p) = shortest (Fin m e) n d (ilog10 n d + 1) 1 17
      in formatDigits (dec_digits s) p)"

fun numberToString :: "jsnum \<Rightarrow> string" where
  "numberToString NaN = ''NaN''"
| "numberToString PosInf = ''Infinity''"
| "numberToString NegInf = ''-Infinity''"
| "numberToString (Fin m e) =
     (if m = 0 then ''0''
      else if m < 0 then ''-'' @ positiveToString (- m) e
      else positiveToString m e)"

text \<open>
  \<open>toString(16)\<close>. Its argument in the source is a result of \<open>parseInt\<close>, which has no
  fraction; the digits are those of the integer part.
\<close>

fun numberToString16 :: "jsnum \<Rightarrow> string" where
  "numberToString16 NaN = ''NaN''"
| "numberToString16 PosInf = ''Infinity''"
| "numberToString16 NegInf = ''-Infinity''"
| "numberToString16 (Fin m e) =
     (if m < 0 then ''-'' @ hex_digits (floor_dyadic (- m) e)
      else hex_digits (floor_dyadic m e))"

text \<open>
  \<open>formatTokenAmount\<close> of networks.ts. \<open>Math.pow(10, decimals)\<close> is the number nearest
  to the power of ten (exact up to \<open>10 ^ 22\<close>); every caller passes 6.
\<close>

definition formatTokenAmount :: "jsnum \<Rightarrow> nat \<Rightarrow> string" where
  "formatTokenAmount amount decimals =
     (let factor = fl_decimal False 1 (int decimals)
      in numberToString (mathFloor (jsmul amount factor)))"


section \<open>String helpers of the builders\<close>

text \<open>\<open>a || b\<close> on strings: the empty string is falsy.\<close>

definition or_else :: "string \<Rightarrow> string \<Rightarrow> string" where
  "or_else a b = (if a = [] then b else a)"

text \<open>\<open>s.padStart(n, c)\<close>: nothing is added to a string of \<open>n\<close> characters or more.\<close>

definition padStart :: "nat \<Rightarrow> char \<Rightarrow> string \<Rightarrow> string" where
  "padStart n c s = replicate (n - length s) c @ s"

text \<open>\<open>s.replace(pat, rep)\<close> with a string pattern: the first occurrence only.\<close>

fun replaceFirst :: "string \<Rightarrow> string \<Rightarrow> string \<Rightarrow> string" where
  "replaceFirst pat rep [] = (if pat = [] then rep else [])"
| "replaceFirst pat rep (c # cs) =
     (if take (length pat) (c # cs) = pat then rep @ drop (length pat) (c # cs)
      else c # replaceFirst pat rep cs)"

text \<open>A template literal prints \<open>null\<close> for a missing string.\<close>

definition show_nullable :: "string option \<Rightarrow> string" where
  "show_nullable s = (case s of None \<Rightarrow> ''null'' | Some t \<Rightarrow> t)"

text \<open>
  \<open>new URLSearchParams(obj).toString()\<close>: the \<open>application/x-www-form-urlencoded\<close>
  serialisation. Letters, digits and \<open>* - . _\<close> stay, a space becomes \<open>+\<close>, any other
  byte becomes \<open>%XX\<close> in upper-case hexadecimal.
\<close>

definition urlencode_char :: "char \<Rightarrow> string" where
  "urlencode_char c =
     (if c = CHR '' '' then ''+''
      else if c \<in> set ''ABCDEFGHIJKLMNOPQRSTUVWXYZabcdefghijklmnopqrstuvwxyz0123456789*-._''
      then [c]
      else [CHR ''%'', ''0123456789ABCDEF'' ! (of_char c div 16),
            ''0123456789ABCDEF'' ! (of_char c mod 16)])"

definition urlencode :: "string \<Rightarrow> string" where
  "urlencode s = concat (map urlencode_char s)"

fun join_with :: "string \<Rightarrow> string list \<Rightarrow> string" where
  "join_with sep [] = []"
| "join_with sep [x] = x"
| "join_with sep (x # y # ys) = x @ sep @ join_with sep (y # ys)"

definition urlSearchParams :: "(string \<times> string) list \<Rightarrow> string" where
  "urlSearchParams ps = join_with ''&'' (map (\<lambda>(k, v). urlencode k @ ''='' @ urlencode v) ps)"


section \<open>Payment QR builders (qrCodeService.ts)\<close>

text \<open>
  The image encoder \<open>QRCode.toDataURL\<close>, the address check \<open>ethers.utils.isAddress\<close>
  and \<open>JSON.stringify\<close> belong to libraries and are parameters of the builders:
  \<open>toDataURL content options\<close> returns the image as a data URL or throws (\<open>Inl\<close>, with
  the message of the error). A builder returns \<open>{success: false, error}\<close> (\<open>Inl\<close>)
  or \<open>{success: true, qrCodeDataUrl, ...}\<close> (\<open>Inr\<close>, with the image first and then the
  link, the URI or the data the builder reports).
\<close>

datatype ecl = LevelL | LevelM | LevelQ | LevelH

record QRCodeOptions =
  width :: "int option"
  margin :: "int option"
  dark :: "string option"
  light :: "string option"
  errorCorrectionLevel :: "ecl option"

definition noOptions :: QRCodeOptions where
  "noOptions = \<lparr> width = None, margin = None, dark = None, light = None,
                  errorCorrectionLevel = None \<rparr>"

text \<open>The options handed to the encoder: width, margin, dark, light, level.\<close>

type_synonym qr_options = "int \<times> int \<times> string \<times> string \<times> ecl"

type_synonym encoder = "string \<Rightarrow> qr_options \<Rightarrow> string + string"

text \<open>\<open>options.width || 256\<close> and its siblings: a missing, zero or empty value is replaced.\<close>

definition qrOptions :: "QRCodeOptions \<Rightarrow> int \<Rightarrow> int \<Rightarrow> ecl \<Rightarrow> qr_options" where
  "qrOptions options w m l =
     ((case width options of None \<Rightarrow> w | Some x \<Rightarrow> if x = 0 then w else x),
      (case margin options of None \<Rightarrow> m | Some x \<Rightarrow> if x = 0 then m else x),
      (case dark options of None \<Rightarrow> ''#000000'' | Some c \<Rightarrow> or_else c ''#000000''),
      (case light options of None \<Rightarrow> ''#FFFFFF'' | Some c \<Rightarrow> or_else c ''#FFFFFF''),
      (case errorCorrectionLevel options of None \<Rightarrow> l | Some x \<Rightarrow> x))"

text \<open>The \<open>catch\<close> of every builder: \<open>error.message || fallback\<close>.\<close>

definition catch_with :: "string \<Rightarrow> string + 'a \<Rightarrow> string + 'a" where
  "catch_with fallback r = (case r of Inl e \<Rightarrow> Inl (or_else e fallback) | Inr v \<Rightarrow> Inr v)"

text \<open>\<open>createMetaMaskDeepLink\<close>: no check of its arguments; the invoice id is not used.\<close>

definition createMetaMaskDeepLink :: "int \<Rightarrow> string \<Rightarrow> string \<Rightarrow> string" where
  "createMetaMaskDeepLink invoiceId amount contractAddress =
     ''ethereum:'' @ show_nullable (pyusdAddress sepolia) @ ''@'' @ dec_digits (chainId sepolia)
       @ ''/transfer?address='' @ contractAddress @ ''&uint256='' @ amount"

definition generatePaymentQR ::
  "encoder \<Rightarrow> int \<Rightarrow> string \<Rightarrow> string \<Rightarrow> QRCodeOptions \<Rightarrow> string + string \<times> string" where
  "generatePaymentQR toDataURL invoiceId amount contractAddress options =
     catch_with ''Failed to generate QR code''
       (let deepLink = createMetaMaskDeepLink invoiceId amount contractAddress
        in case toDataURL deepLink (qrOptions options 256 4 LevelH) of
             Inl e \<Rightarrow> Inl e
           | Inr qrCodeDataUrl \<Rightarrow> Inr (qrCodeDataUrl, deepLink))"

text \<open>
  The amount in base units, as every builder computes it:
  \<open>Math.floor(parseFloat(amount) * 1e6).toString()\<close>.
\<close>

definition amountInWei :: "string \<Rightarrow> string" where
  "amountInWei amount = numberToString (mathFloor (jsmul (parseFloat amount) (num 1000000)))"

text \<open>
  \<open>generatePYUSDPaymentQR\<close>, the token-transfer deep link. The three checks come first,
  in the order of the source; the invoice id is only logged.
\<close>

definition generatePYUSDPaymentQR ::
  "(string \<Rightarrow> bool) \<Rightarrow> encoder \<Rightarrow> int \<Rightarrow> string \<Rightarrow> string \<Rightarrow> QRCodeOptions
     \<Rightarrow> string + string \<times> string" where
  "generatePYUSDPaymentQR isAddress toDataURL invoiceId amount contractAddress options =
     catch_with ''Failed to generate PYUSD payment QR''
       (if pyusdAddress sepolia = None \<or> pyusdAddress sepolia = Some []
        then Inl ''PYUSD token address not configured for Sepolia network''
        else if contractAddress = [] \<or> \<not> isAddress contractAddress
        then Inl ''Invalid contract address provided''
        else if amount = [] \<or> isNaN (parseFloat amount) \<or> le_zero (parseFloat amount)
        then Inl ''Invalid amount provided''
        else
          let uri = ''ethereum:'' @ show_nullable (pyusdAddress sepolia) @ ''@''
                      @ dec_digits (chainId sepolia) @ ''/transfer?address='' @ contractAddress
                      @ ''&uint256='' @ amountInWei amount @ ''&gas=100000''
          in case toDataURL uri (qrOptions options 256 4 LevelM) of
               Inl e \<Rightarrow> Inl e
             | Inr qrCodeDataUrl \<Rightarrow> Inr (qrCodeDataUrl, uri))"

text \<open>\<open>encodeTransferFunction\<close>: the call data of \<open>transfer(address,uint256)\<close>.\<close>

definition encodeTransferFunction :: "string \<Rightarrow> string \<Rightarrow> string" where
  "encodeTransferFunction to amount =
     (let functionSelector = ''a9059cbb'';
          addressParam = padStart 64 (CHR ''0'') (replaceFirst ''0x'' '''' to);
          amountParam = padStart 64 (CHR ''0'') (numberToString16 (parseInt amount))
      in ''0x'' @ functionSelector @ addressParam @ amountParam)"

text \<open>\<open>generateMetaMaskMobileQR\<close>, the wallet-specific mobile deep link.\<close>

definition generateMetaMaskMobileQR ::
  "encoder \<Rightarrow> int \<Rightarrow> string \<Rightarrow> string \<Rightarrow> QRCodeOptions \<Rightarrow> string + string \<times> string" where
  "generateMetaMaskMobileQR toDataURL invoiceId amount contractAddress options =
     catch_with ''Failed to generate MetaMask mobile QR''
       (if pyusdAddress sepolia = None \<or> pyusdAddress sepolia = Some []
        then Inl ''PYUSD token address not configured''
        else
          let deepLinkParams = urlSearchParams
                [(''chainId'', ''0x'' @ hex_digits (chainId sepolia)),
                 (''chainName'', name sepolia),
                 (''nativeCurrencyName'', currency sepolia),
                 (''nativeCurrencySymbol'', currency sepolia),
                 (''nativeCurrencyDecimals'', ''18''),
                 (''rpcUrl'', rpcUrl sepolia),
                 (''blockExplorerUrl'', blockExplorer sepolia),
                 (''to'', show_nullable (pyusdAddress sepolia)),
                 (''data'', encodeTransferFunction contractAddress (amountInWei amount)),
                 (''gas'', ''100000''),
                 (''value'', ''0x0'')];
              deepLink = ''https://metamask.app.link/dapp/localhost:5174/?'' @ deepLinkParams
          in case toDataURL deepLink (qrOptions options 256 4 LevelL) of
               Inl e \<Rightarrow> Inl e
             | Inr qrCodeDataUrl \<Rightarrow> Inr (qrCodeDataUrl, deepLink))"

text \<open>
  \<open>generateStructuredPaymentQR\<close>: the payload \<open>PaymentQRData\<close> is an object of strings
  and numbers, kept here as its fields in the order of the source.
\<close>

datatype json = JString string | JNumber jsnum

type_synonym PaymentQRData = "(string \<times> json) list"

definition generateStructuredPaymentQR ::
  "(PaymentQRData \<Rightarrow> string) \<Rightarrow> encoder \<Rightarrow> int \<Rightarrow> string \<Rightarrow> string \<Rightarrow> QRCodeOptions
     \<Rightarrow> string + string \<times> PaymentQRData" where
  "generateStructuredPaymentQR stringify toDataURL invoiceId amount contractAddress options =
     catch_with ''Failed to generate structured payment QR''
       (if pyusdAddress sepolia = None \<or> pyusdAddress sepolia = Some []
        then Inl ''PYUSD token address not configured''
        else
          let paymentData =
                [(''type'', JString ''ethereum-payment''),
                 (''invoiceId'', JNumber (num invoiceId)),
                 (''contractAddress'', JString contractAddress),
                 (''tokenAddress'', JString (show_nullable (pyusdAddress sepolia))),
                 (''amount'', JString amount),
                 (''chainId'', JNumber (num (chainId sepolia))),
                 (''recipient'', JString contractAddress),
                 (''network'', JString ''sepolia''),
                 (''networkName'', JString ''Sepolia Testnet''),
                 (''to'', JString contractAddress),
                 (''token'', JString (show_nullable (pyusdAddress sepolia))),
                 (''value'', JString (numberToString (jsmul (parseFloat amount) (num 1000000))))]
          in case toDataURL (stringify paymentData) (qrOptions options 256 4 LevelM) of
               Inl e \<Rightarrow> Inl e
             | Inr qrCodeDataUrl \<Rightarrow> Inr (qrCodeDataUrl, paymentData))"

text \<open>\<open>generateGenericPaymentQR\<close>, the bare \<open>ethereum:address@chain\<close> form.\<close>

definition generateGenericPaymentQR ::
  "encoder \<Rightarrow> string \<Rightarrow> string \<Rightarrow> int \<Rightarrow> string option \<Rightarrow> QRCodeOptions
     \<Rightarrow> string + string \<times> string" where
  "generateGenericPaymentQR toDataURL to amount chain data options =
     catch_with ''Failed to generate payment QR''
       (case find (\<lambda>n. chainId n = chain) web3_NETWORKS of
          None \<Rightarrow> Inl (''Unsupported network: '' @ numberToString (num chain))
        | Some network \<Rightarrow>
            let valueParam = (if amount \<noteq> [] \<and> amount \<noteq> ''0'' then [(''value'', amount)] else []);
                dataParam = (if data = None \<or> data = Some [] then []
                             else [(''data'', show_nullable data)]);
                params = valueParam @ dataParam;
                uri = ''ethereum:'' @ to @ ''@'' @ numberToString (num chain)
                        @ (if urlSearchParams params \<noteq> [] then ''?'' @ urlSearchParams params else [])
            in (case toDataURL uri (qrOptions options 256 4 LevelH) of
                  Inl e \<Rightarrow> Inl e
                | Inr qrCodeDataUrl \<Rightarrow> Inr (qrCodeDataUrl, uri)))"


section \<open>The QR button of the invoice list (BlockchainInvoicesList.tsx)\<close>

text \<open>
  \<open>Invoice\<close> of types.ts, as \<open>BlockchainService.getInvoice\<close> builds it; its field
  \<open>id\<close> is \<open>invoice_id\<close> here.
\<close>

record Invoice =
  invoice_id :: int
  creator :: string
  payer :: string
  amount :: string
  status :: int
  ipfsHash :: string
  createdAt :: int
  paidAt :: int
  exists :: bool

datatype builder = MetaMaskMobileQR | PYUSDPaymentQR | StructuredPaymentQR | GenericPaymentQR

text \<open>
  The end of \<open>handleGenerateQR\<close>: the modal is shown when \<open>qrResult.success\<close> holds and
  the image is not empty; otherwise \<open>qrResult.error || ...\<close> is thrown, caught and shown
  in the toast.
\<close>

definition showResult :: "string + string \<times> string \<Rightarrow> string + string \<times> string" where
  "showResult qrResult =
     (case qrResult of
        Inr (qrCodeDataUrl, deepLink) \<Rightarrow>
          if qrCodeDataUrl \<noteq> [] then Inr (qrCodeDataUrl, deepLink)
          else Inl (''Failed to generate QR code: '' @ ''Failed to generate QR code with all methods'')
      | Inl e \<Rightarrow>
          Inl (''Failed to generate QR code: ''
                 @ or_else e ''Failed to generate QR code with all methods''))"

text \<open>
  \<open>handleGenerateQR\<close>, over the three methods of \<open>qrCodeService\<close> it calls. The result is
  the list of builders it has called, in order, and what the user sees: the modal with
  the image and the link (\<open>Inr\<close>) or the message of the toast (\<open>Inl\<close>). \<open>qrResult\<close> is
  replaced only by a later success.
\<close>

definition handleGenerateQR_with ::
  "(int \<Rightarrow> string \<Rightarrow> string \<Rightarrow> QRCodeOptions \<Rightarrow> string + string \<times> string)
   \<Rightarrow> (int \<Rightarrow> string \<Rightarrow> string \<Rightarrow> QRCodeOptions \<Rightarrow> string + string \<times> string)
   \<Rightarrow> (int \<Rightarrow> string \<Rightarrow> string \<Rightarrow> QRCodeOptions \<Rightarrow> string + string \<times> PaymentQRData)
   \<Rightarrow> (PaymentQRData \<Rightarrow> string) \<Rightarrow> Invoice
   \<Rightarrow> builder list \<times> (string + string \<times> string)" where
  "handleGenerateQR_with mobile eip structured stringify invoice =
     (let qrResult = mobile (invoice_id invoice) (amount invoice) (creator invoice) noOptions
      in case qrResult of
           Inr r \<Rightarrow> ([MetaMaskMobileQR], showResult qrResult)
         | Inl e \<Rightarrow>
             (case eip (invoice_id invoice) (amount invoice) (creator invoice) noOptions of
                Inr (qrCodeDataUrl, uri) \<Rightarrow>
                  ([MetaMaskMobileQR, PYUSDPaymentQR], showResult (Inr (qrCodeDataUrl, uri)))
              | Inl e2 \<Rightarrow>
                  (case structured (invoice_id invoice) (amount invoice) (creator invoice) noOptions of
                     Inr (qrCodeDataUrl, data) \<Rightarrow>
                       ([MetaMaskMobileQR, PYUSDPaymentQR, StructuredPaymentQR],
                        showResult (Inr (qrCodeDataUrl, stringify data)))
                   | Inl e3 \<Rightarrow>
                       ([MetaMaskMobileQR, PYUSDPaymentQR, StructuredPaymentQR],
                        showResult qrResult))))"

text \<open>The component as it is wired: the builders of \<open>qrCodeService\<close>.\<close>

definition handleGenerateQR ::
  "(string \<Rightarrow> bool) \<Rightarrow> (PaymentQRData \<Rightarrow> string) \<Rightarrow> encoder \<Rightarrow> Invoice
     \<Rightarrow> builder list \<times> (string + string \<times> string)" where
  "handleGenerateQR isAddress stringify toDataURL =
     handleGenerateQR_with (generateMetaMaskMobileQR toDataURL)
       (generatePYUSDPaymentQR isAddress toDataURL)
       (generateStructuredPaymentQR stringify toDataURL) stringify"
section \<open>Wallet state of the WalletProvider component (WalletContext)\<close>

text \<open>
  \<open>WalletState\<close> of types.ts. The chain id field is called \<open>chainId\<close> in the source;
  here it is \<open>walletChainId\<close>, since \<open>chainId\<close> is the field of \<open>Network\<close>.
\<close>

record WalletState =
  isConnected :: bool
  address :: "string option"
  balance :: string
  walletChainId :: "int option"
  network :: "Network option"
  isLoading :: bool
  error :: "string option"

text \<open>The events of the injected provider the component subscribes to.\<close>

datatype provider_event = accountsChangedEv | chainChangedEv | connectEv | disconnectEv

text \<open>Work the handlers schedule for later (\<open>setTimeout\<close>).\<close>

datatype scheduled = refreshBalanceAfter nat

text \<open>
  What the component owns: its React state, whether \<open>window.ethereum\<close> exists, the
  provider events that currently have a listener, and the timers it has set.
\<close>

record wallet_ctx =
  walletState :: WalletState
  hasEthereum :: bool
  listeners :: "provider_event list"
  timers :: "scheduled list"

definition removeEventListeners :: "wallet_ctx \<Rightarrow> wallet_ctx" where
  "removeEventListeners c =
     (if \<not> hasEthereum c then c
      else c\<lparr> listeners :=
        filter (\<lambda>e. e \<notin> {accountsChangedEv, chainChangedEv, connectEv, disconnectEv})
          (listeners c) \<rparr>)"

definition disconnectWallet :: "wallet_ctx \<Rightarrow> wallet_ctx" where
  "disconnectWallet c =
     removeEventListeners
       (c\<lparr> walletState := \<lparr> isConnected = False, address = None, balance = ''0'',
             walletChainId = None, network = None, isLoading = False, error = None \<rparr> \<rparr>)"

text \<open>
  The \<open>accountsChanged\<close> listener installed by \<open>setupEventListeners\<close>. The argument
  \<open>accounts\<close> may be missing altogether (\<open>!accounts\<close>), hence the option. The listener
  compares the first account with \<open>walletState.address\<close> of the render that installed
  it (\<open>captured\<close>), while \<open>setWalletState(prev => ...)\<close> updates the current state.
\<close>

definition onAccountsChanged ::
  "WalletState \<Rightarrow> string list option \<Rightarrow> wallet_ctx \<Rightarrow> wallet_ctx" where
  "onAccountsChanged captured accounts c =
     (case accounts of
        None \<Rightarrow> disconnectWallet c
      | Some [] \<Rightarrow> disconnectWallet c
      | Some (a # _) \<Rightarrow>
          if Some a \<noteq> address captured
          then c\<lparr> walletState := (walletState c)\<lparr> address := Some a, balance := ''0'' \<rparr>,
                  timers := timers c @ [refreshBalanceAfter 100] \<rparr>
          else c)"

text \<open>The \<open>chainChanged\<close> listener: the chain id arrives as a hex string, already parsed here.\<close>

definition onChainChanged :: "int \<Rightarrow> wallet_ctx \<Rightarrow> wallet_ctx" where
  "onChainChanged chainIdNumber c =
     c\<lparr> walletState := (walletState c)\<lparr>
          walletChainId := Some chainIdNumber,
          network := Some (case getNetworkByChainId chainIdNumber of
                             None \<Rightarrow> getDefaultNetwork | Some n \<Rightarrow> n) \<rparr> \<rparr>"




section \<open>The contract gateway (BlockchainService, Web3Service, BlockchainContext)\<close>

text \<open>
  Everything the gateway asks of the outside: the invoice contract, the token contract,
  the signer and the metadata store. A call that changes the state of the chain is a
  transaction.
\<close>

datatype call =
    UploadInvoiceData
  | GetInvoice int
  | GetAddress
  | BalanceOf string
  | Allowance string string
  | Approve string nat
  | ApproveWait
  | EstimateGasPayInvoice int
  | PayInvoice int "nat option"
  | PayInvoiceWait
  | EstimateGasCreateInvoice string "string option"
  | CreateInvoice string "string option" "nat option"
  | CreateInvoiceWait
  | RefreshWalletState

fun is_transaction :: "call \<Rightarrow> bool" where
  "is_transaction (Approve spender amt) = True"
| "is_transaction (PayInvoice i g) = True"
| "is_transaction (CreateInvoice a h g) = True"
| "is_transaction c = False"

fun is_contract_call :: "call \<Rightarrow> bool" where
  "is_contract_call UploadInvoiceData = False"
| "is_contract_call GetAddress = False"
| "is_contract_call RefreshWalletState = False"
| "is_contract_call c = True"

text \<open>The tuple \<open>getInvoice\<close> of the contract returns; the numbers are \<open>uint256\<close>.\<close>

record ContractInvoice =
  ci_id :: nat
  ci_creator :: string
  ci_payer :: string
  ci_amount :: nat
  ci_status :: nat
  ci_ipfsHash :: string
  ci_createdAt :: nat
  ci_paidAt :: nat
  ci_exists :: bool

text \<open>\<open>IPFSResult\<close> of types.ts: what \<open>uploadInvoiceData\<close> resolves to.\<close>

record IPFSResult =
  ipfs_success :: bool
  ipfs_hash :: "string option"
  ipfs_error :: "string option"

text \<open>
  The answers of the outside to each call: \<open>Inl\<close> is a thrown error with its message
  (a rejected signature, a revert, a network failure), \<open>Inr\<close> the value returned. The
  receipt of \<open>createInvoice\<close> is reduced to the invoice id of its \<open>InvoiceCreated\<close>
  event, if there is one. \<open>parseUnits\<close> is the decimal parser of the ethers library.
  The metadata hash is optional where the source passes \<open>ipfsResult.ipfsHash!\<close> on
  unchecked.
\<close>

record world =
  uploadInvoiceData :: "string + IPFSResult"
  contract_getInvoice :: "int \<Rightarrow> string + ContractInvoice"
  signer_getAddress :: "string + string"
  pyusd_balanceOf :: "string \<Rightarrow> string + nat"
  pyusd_allowance :: "string \<Rightarrow> string \<Rightarrow> string + nat"
  pyusd_approve :: "string \<Rightarrow> nat \<Rightarrow> string + unit"
  approve_wait :: "string + unit"
  estimateGas_payInvoice :: "int \<Rightarrow> string + nat"
  contract_payInvoice :: "int \<Rightarrow> string + string"
  payInvoice_wait :: "string + unit"
  parseUnits :: "string \<Rightarrow> string + string"
  estimateGas_createInvoice :: "string \<Rightarrow> string option \<Rightarrow> string + nat"
  contract_createInvoice :: "string \<Rightarrow> string option \<Rightarrow> string + string"
  createInvoice_wait :: "string + nat option"

text \<open>
  An asynchronous computation of the gateway: the calls made so far, in order, and
  either the error thrown or the value. \<open>then_do\<close> is \<open>await\<close> followed by the rest of
  the function body: after an error nothing more is called.
\<close>

type_synonym 'a io = "call list \<times> (string + 'a)"

definition done_io :: "'a \<Rightarrow> 'a io" where
  "done_io x = ([], Inr x)"

definition throw :: "string \<Rightarrow> 'a io" where
  "throw e = ([], Inl e)"

definition ask :: "call \<Rightarrow> string + 'a \<Rightarrow> 'a io" where
  "ask c answer = ([c], answer)"

definition then_do :: "'a io \<Rightarrow> ('a \<Rightarrow> 'b io) \<Rightarrow> 'b io" where
  "then_do m f =
     (case m of
        (t, Inl e) \<Rightarrow> (t, Inl e)
      | (t, Inr x) \<Rightarrow> (case f x of (t', r) \<Rightarrow> (t @ t', r)))"

text \<open>The \<open>catch\<close> at the end of a gateway method: \<open>{success: false, error: message || fallback}\<close>.\<close>

definition catch_io :: "string \<Rightarrow> 'a io \<Rightarrow> 'a io" where
  "catch_io fallback m = (case m of (t, r) \<Rightarrow> (t, catch_with fallback r))"

text \<open>What a service object holds once initialised: the signer and the two contracts.\<close>

record service =
  signer :: bool
  invoiceContract :: "string option"
  pyusdContract :: "string option"

text \<open>\<open>BigNumber.toNumber()\<close>: throws beyond 53 bits.\<close>

definition toNumber :: "nat \<Rightarrow> string + int" where
  "toNumber n = (if int n < 2 ^ 53 then Inr (int n) else Inl ''overflow'')"

text \<open>\<open>s.toLowerCase()\<close> on ASCII.\<close>

definition toLowerCase :: "string \<Rightarrow> string" where
  "toLowerCase s =
     map (\<lambda>c. case index_of c ''ABCDEFGHIJKLMNOPQRSTUVWXYZ'' of
                None \<Rightarrow> c
              | Some i \<Rightarrow> ''abcdefghijklmnopqrstuvwxyz'' ! nat i) s"

definition UNPAID :: int where
  "UNPAID = 0"


subsection \<open>BlockchainService\<close>

text \<open>
  \<open>BlockchainService.getInvoice\<close>: any error, also of a conversion, gives \<open>null\<close>. The
  amount is carried as the decimal string of the \<open>uint256\<close>; \<open>balance.lt(invoice.amount)\<close>
  reads it back unchanged, so \<open>payInvoice\<close> compares the \<open>uint256\<close> itself.
\<close>

definition bs_getInvoice :: "service \<Rightarrow> world \<Rightarrow> int \<Rightarrow> (Invoice \<times> nat) option io" where
  "bs_getInvoice svc w invoiceId =
     (if invoiceContract svc = None then done_io None
      else case ask (GetInvoice invoiceId) (contract_getInvoice w invoiceId) of
             (t, Inl e) \<Rightarrow> (t, Inr None)
           | (t, Inr invoiceData) \<Rightarrow>
               (case (toNumber (ci_id invoiceData), toNumber (ci_createdAt invoiceData),
                      toNumber (ci_paidAt invoiceData)) of
                  (Inr i, Inr c, Inr p) \<Rightarrow>
                    (t, Inr (Some (\<lparr> invoice_id = i, creator = ci_creator invoiceData,
                                      payer = ci_payer invoiceData,
                                      amount = dec_digits (int (ci_amount invoiceData)),
                                      status = int (ci_status invoiceData),
                                      ipfsHash = ci_ipfsHash invoiceData,
                                      createdAt = c, paidAt = p,
                                      exists = ci_exists invoiceData \<rparr>,
                                    ci_amount invoiceData)))
                | _ \<Rightarrow> (t, Inr None)))"

definition bs_payInvoice :: "service \<Rightarrow> world \<Rightarrow> int \<Rightarrow> string io" where
  "bs_payInvoice svc w invoiceId =
     catch_io ''Failed to pay invoice''
       (if invoiceContract svc = None \<or> pyusdContract svc = None \<or> \<not> signer svc
        then throw ''Blockchain service not initialized''
        else
          then_do (bs_getInvoice svc w invoiceId) (\<lambda>found.
          case found of
            None \<Rightarrow> throw ''Invoice not found''
          | Some (invoice, invoice_amount) \<Rightarrow>
              if status invoice \<noteq> UNPAID then throw ''Invoice is not in unpaid status''
              else
                then_do (ask GetAddress (signer_getAddress w)) (\<lambda>userAddress.
                if toLowerCase (creator invoice) = toLowerCase userAddress
                then throw ''Cannot pay your own invoice''
                else
                  then_do (ask (BalanceOf userAddress) (pyusd_balanceOf w userAddress)) (\<lambda>balance.
                  if balance < invoice_amount then throw ''Insufficient PYUSD balance''
                  else
                    let contractAddress = show_nullable (invoiceContract svc)
                    in
                    then_do (ask (Allowance userAddress contractAddress)
                               (pyusd_allowance w userAddress contractAddress)) (\<lambda>allowance.
                    then_do (if allowance < invoice_amount
                             then then_do (ask (Approve contractAddress invoice_amount)
                                             (pyusd_approve w contractAddress invoice_amount))
                                    (\<lambda>approveTx. ask ApproveWait (approve_wait w))
                             else done_io ()) (\<lambda>_.
                    then_do (ask (PayInvoice invoiceId None) (contract_payInvoice w invoiceId))
                      (\<lambda>payTx.
                    then_do (ask PayInvoiceWait (payInvoice_wait w)) (\<lambda>_.
                    done_io payTx))))))))"

text \<open>
  \<open>BlockchainService.createInvoice\<close>. Of the draft only the amount, a \<open>number\<close>, takes
  part in the control flow; the draft itself goes to the metadata store.
\<close>

definition invoiceIdOfReceipt :: "nat option \<Rightarrow> int option io" where
  "invoiceIdOfReceipt ev =
     (case ev of
        None \<Rightarrow> done_io None
      | Some n \<Rightarrow> (case toNumber n of Inl e \<Rightarrow> throw e | Inr i \<Rightarrow> done_io (Some i)))"

definition bs_createInvoice :: "service \<Rightarrow> world \<Rightarrow> jsnum \<Rightarrow> (int option \<times> string) io" where
  "bs_createInvoice svc w invoiceData_amount =
     catch_io ''Failed to create invoice''
       (if invoiceContract svc = None \<or> \<not> signer svc
        then throw ''Blockchain service not initialized''
        else
          then_do (ask UploadInvoiceData (uploadInvoiceData w)) (\<lambda>ipfsResult.
          if \<not> ipfs_success ipfsResult \<or> ipfs_hash ipfsResult = None
               \<or> ipfs_hash ipfsResult = Some []
          then throw (or_else (case ipfs_error ipfsResult of None \<Rightarrow> [] | Some e \<Rightarrow> e)
                        ''Failed to upload to IPFS'')
          else
            let formattedAmount = formatTokenAmount invoiceData_amount 6
            in
            then_do (ask (CreateInvoice formattedAmount (ipfs_hash ipfsResult) None)
                       (contract_createInvoice w formattedAmount (ipfs_hash ipfsResult)))
              (\<lambda>tx.
            then_do (ask CreateInvoiceWait (createInvoice_wait w)) (\<lambda>receipt.
            then_do (invoiceIdOfReceipt receipt) (\<lambda>invoiceId.
            done_io (invoiceId, tx))))))"


subsection \<open>Web3Service and the BlockchainContext provider\<close>

text \<open>
  \<open>Web3Service.payInvoice\<close>. It reads the tuple of the contract directly and checks the
  balance only. \<open>this.signer!\<close> is not checked: without a signer the call throws a
  \<open>TypeError\<close>, whose message depends on the engine.
\<close>

definition w3_payInvoice :: "service \<Rightarrow> world \<Rightarrow> int \<Rightarrow> string io" where
  "w3_payInvoice svc w invoiceId =
     catch_io ''Failed to pay invoice''
       (if invoiceContract svc = None \<or> pyusdContract svc = None
        then throw ''Contracts not initialized''
        else
          then_do (ask (GetInvoice invoiceId) (contract_getInvoice w invoiceId)) (\<lambda>invoice.
          let invoice_amount = ci_amount invoice
          in
          then_do (if signer svc then ask GetAddress (signer_getAddress w)
                   else throw ''Cannot read properties of null'') (\<lambda>userAddress.
          then_do (ask (BalanceOf userAddress) (pyusd_balanceOf w userAddress)) (\<lambda>balance.
          if balance < invoice_amount then throw ''Insufficient PYUSD balance''
          else
            let contractAddress = show_nullable (invoiceContract svc)
            in
            then_do (ask (Allowance userAddress contractAddress)
                       (pyusd_allowance w userAddress contractAddress)) (\<lambda>allowance.
            then_do (if allowance < invoice_amount
                     then then_do (ask (Approve contractAddress invoice_amount)
                                     (pyusd_approve w contractAddress invoice_amount))
                            (\<lambda>approveTx. ask ApproveWait (approve_wait w))
                     else done_io ()) (\<lambda>_.
            then_do (ask (EstimateGasPayInvoice invoiceId) (estimateGas_payInvoice w invoiceId))
              (\<lambda>gasEstimate.
            then_do (ask (PayInvoice invoiceId (Some (gasEstimate * 120 div 100)))
                       (contract_payInvoice w invoiceId)) (\<lambda>tx.
            then_do (ask PayInvoiceWait (payInvoice_wait w)) (\<lambda>_.
            done_io tx)))))))))"

text \<open>\<open>Web3Service.createInvoice(amount, ipfsHash)\<close>: the amount is a decimal string.\<close>

definition w3_createInvoice ::
  "service \<Rightarrow> world \<Rightarrow> string \<Rightarrow> string option \<Rightarrow> (int option \<times> string) io" where
  "w3_createInvoice svc w amount_str hash =
     catch_io ''Failed to create invoice''
       (if invoiceContract svc = None then throw ''Invoice contract not initialized''
        else
          then_do ([], parseUnits w amount_str) (\<lambda>amountWei.
          then_do (ask (EstimateGasCreateInvoice amountWei hash)
                     (estimateGas_createInvoice w amountWei hash)) (\<lambda>gasEstimate.
          then_do (ask (CreateInvoice amountWei hash (Some (gasEstimate * 120 div 100)))
                     (contract_createInvoice w amountWei hash)) (\<lambda>tx.
          then_do (ask CreateInvoiceWait (createInvoice_wait w)) (\<lambda>receipt.
          then_do (invoiceIdOfReceipt receipt) (\<lambda>invoiceId.
          done_io (invoiceId, tx)))))))"

text \<open>\<open>WalletState\<close> of web3Service.ts, the state the BlockchainContext provider keeps.\<close>

record Web3WalletState =
  w3_isConnected :: bool
  w3_address :: "string option"
  w3_chainId :: "int option"
  w3_balance :: string
  w3_pyusdBalance :: string
  w3_isCorrectNetwork :: bool

text \<open>
  \<open>createBlockchainInvoice\<close> of the provider: the upload, then
  \<open>web3Service.createInvoice\<close>, whose result object is returned as it is; after a
  success the wallet state is read again.
\<close>

definition createBlockchainInvoice ::
  "service \<Rightarrow> world \<Rightarrow> Web3WalletState option \<Rightarrow> string \<Rightarrow> (int option \<times> string) io" where
  "createBlockchainInvoice svc w walletState_ctx invoiceData_amount =
     catch_io ''Failed to create blockchain invoice''
       (if (case walletState_ctx of None \<Rightarrow> True | Some ws \<Rightarrow> \<not> w3_isConnected ws)
        then throw ''Wallet not connected''
        else if (case walletState_ctx of None \<Rightarrow> True | Some ws \<Rightarrow> \<not> w3_isCorrectNetwork ws)
        then throw ''Please switch to Sepolia Testnet''
        else
          then_do (ask UploadInvoiceData (uploadInvoiceData w)) (\<lambda>ipfsResult.
          if \<not> ipfs_success ipfsResult
          then throw (or_else (case ipfs_error ipfsResult of None \<Rightarrow> [] | Some e \<Rightarrow> e)
                        ''Failed to upload to IPFS'')
          else
            then_do (w3_createInvoice svc w invoiceData_amount (ipfs_hash ipfsResult)) (\<lambda>result.
            then_do (ask RefreshWalletState (Inr ())) (\<lambda>_.
            done_io result))))"


section \<open>Decoding the call data\<close>

text \<open>
  Modelled from the spec: the repository has no decoder. This one reads call data as
  the spec lays it out: \<open>0x\<close>, the 4-byte selector \<open>a9059cbb\<close>, a 32-byte word whose
  last 20 bytes are the address, and a 32-byte big-endian amount; anything else is
  not call data of a transfer.
\<close>

definition decodeTransferFunction :: "string \<Rightarrow> (string \<times> int) option" where
  "decodeTransferFunction calldata =
     (let body = drop 10 calldata;
          addressWord = take 64 body;
          amountWord = drop 64 body
      in if take 10 calldata = ''0xa9059cbb'' \<and> length body = 128
            \<and> list_all isHexDigit body \<and> take 24 addressWord = replicate 24 (CHR ''0'')
         then Some (''0x'' @ drop 24 addressWord, digits_value 16 hex_value amountWord)
         else None)"

text \<open>An address written as \<open>0x\<close> and 40 hexadecimal digits.\<close>

definition hexAddress :: "string \<Rightarrow> bool" where
  "hexAddress a = (take 2 a = ''0x'' \<and> length a = 42 \<and> list_all isHexDigit (drop 2 a))"


section \<open>Notions used in the properties\<close>

text \<open>
  A gateway method has rejected locally when it returns an error and has sent no
  transaction; reading the chain is allowed.
\<close>

definition rejected_locally :: "'a io \<Rightarrow> bool" where
  "rejected_locally r = (isl (snd r) \<and> \<not> list_ex is_transaction (fst r))"

fun is_approve :: "call \<Rightarrow> bool" where
  "is_approve (Approve spender amt) = True"
| "is_approve c = False"

fun is_payment :: "call \<Rightarrow> bool" where
  "is_payment (PayInvoice i g) = True"
| "is_payment c = False"

fun is_allowance :: "call \<Rightarrow> bool" where
  "is_allowance (Allowance owner spender) = True"
| "is_allowance c = False"

text \<open>The calls made before the payment transaction is submitted.\<close>

definition before_payment :: "call list \<Rightarrow> call list" where
  "before_payment t = takeWhile (\<lambda>c. \<not> is_payment c) t"

text \<open>The calls from the approval on.\<close>

definition from_approval :: "call list \<Rightarrow> call list" where
  "from_approval t = dropWhile (\<lambda>c. \<not> is_approve c) t"

text \<open>The metadata upload has failed: it threw, or it reported no success.\<close>

definition upload_failed :: "world \<Rightarrow> bool" where
  "upload_failed w =
     (case uploadInvoiceData w of Inl e \<Rightarrow> True | Inr r \<Rightarrow> \<not> ipfs_success r)"


section \<open>Sample inputs\<close>

text \<open>An encoder that accepts every content, one that accepts none, and one with a capacity.\<close>

definition encodeAlways :: encoder where
  "encodeAlways content opts = Inr ''data:image/png;base64,''"

definition encodeNever :: encoder where
  "encodeNever content opts = Inl ''The amount of data is too big to be stored in a QR Code''"

definition encodeUpTo :: "nat \<Rightarrow> encoder" where
  "encodeUpTo n content opts =
     (if length content \<le> n then Inr ''data:image/png;base64,''
      else Inl ''The amount of data is too big to be stored in a QR Code'')"

text \<open>The invoice of the repository's own QR test: id 123, amount 100.50.\<close>

definition invoice123 :: Invoice where
  "invoice123 = \<lparr> invoice_id = 123, creator = ''0x3BEa30431539669E94B2E79149654586F7746A16'',
     payer = ''0x0000000000000000000000000000000000000000'', amount = ''100.50'', status = 0,
     ipfsHash = ''QmHash'', createdAt = 1700000000, paidAt = 0, exists = True \<rparr>"

text \<open>An initialised service on Sepolia.\<close>

definition sepoliaService :: service where
  "sepoliaService = \<lparr> signer = True,
     invoiceContract = Some ''0x66bCb1F1cdf4f0338E79E3685CEe1144954B5a2b'',
     pyusdContract = Some ''0xCaC524BcA292aaade2DF8A05cC58F0a65B1B3bB9'' \<rparr>"

text \<open>
  A chain on which every call succeeds: invoice 123 of 100.50 PYUSD with the given
  status, a caller with the given address, token balance and allowance, and a
  metadata store that answers as given.
\<close>

definition sampleWorld :: "nat \<Rightarrow> string \<Rightarrow> nat \<Rightarrow> nat \<Rightarrow> string + IPFSResult \<Rightarrow> world" where
  "sampleWorld st caller bal allow upload =
     \<lparr> uploadInvoiceData = upload,
       contract_getInvoice = (\<lambda>i. Inr \<lparr> ci_id = 123,
          ci_creator = ''0x3BEa30431539669E94B2E79149654586F7746A16'',
          ci_payer = ''0x0000000000000000000000000000000000000000'',
          ci_amount = 100500000, ci_status = st, ci_ipfsHash = ''QmHash'',
          ci_createdAt = 1700000000, ci_paidAt = 0, ci_exists = True \<rparr>),
       signer_getAddress = Inr caller,
       pyusd_balanceOf = (\<lambda>owner. Inr bal),
       pyusd_allowance = (\<lambda>owner spender. Inr allow),
       pyusd_approve = (\<lambda>spender amt. Inr ()),
       approve_wait = Inr (),
       estimateGas_payInvoice = (\<lambda>i. Inr 60000),
       contract_payInvoice = (\<lambda>i. Inr ''0xpay''),
       payInvoice_wait = Inr (),
       parseUnits = (\<lambda>s. Inr ''100500000''),
       estimateGas_createInvoice = (\<lambda>a h. Inr 90000),
       contract_createInvoice = (\<lambda>a h. Inr ''0xcreate''),
       createInvoice_wait = Inr (Some 124) \<rparr>"

definition payerAddress :: string where
  "payerAddress = ''0x70997970C51812dc3A010C7d01b50e0d17dc79C8''"

definition uploadOk :: "string + IPFSResult" where
  "uploadOk = Inr \<lparr> ipfs_success = True, ipfs_hash = Some ''QmHash'', ipfs_error = None \<rparr>"

definition uploadRefused :: "string + IPFSResult" where
  "uploadRefused =
     Inr \<lparr> ipfs_success = False, ipfs_hash = None, ipfs_error = Some ''Pinata API error: 401'' \<rparr>"
section \<open>Properties of the wallet state\<close>

text \<open>
  Claim C7. From any wallet state, and so from any connected one, an \<open>accountsChanged\<close>
  notification with an empty account list leaves the wallet disconnected with the
  address and the chain id cleared and the balance reset to \<open>'0'\<close>. The result does not
  depend on the state before, nor on the state the listener captured, and nothing is
  scheduled or asked on the way.
\<close>

theorem accountsChanged_empty_disconnects:
  "walletState (onAccountsChanged captured (Some []) c) =
     \<lparr> isConnected = False, address = None, balance = ''0'',
       walletChainId = None, network = None, isLoading = False, error = None \<rparr>
   \<and> timers (onAccountsChanged captured (Some []) c) = timers c"
  by (simp add: onAccountsChanged_def disconnectWallet_def removeEventListeners_def)

end
